theory Spec2Isabelle
  imports Complex_Main
begin

section \<open>Numbers\<close>

text \<open>
  A TypeScript \<^verbatim>\<open>number\<close> is modelled with exact arithmetic: a finite number is a
  \<^typ>\<open>real\<close>, \<^verbatim>\<open>Math.round\<close> (round half up) is \<^const>\<open>round\<close>, that is
  \<open>\<lfloor>x + 1/2\<rfloor>\<close>, and a value produced by \<^verbatim>\<open>Math.round\<close> is kept as an \<^typ>\<open>int\<close>.
  The rounding of binary floating point, its overflow to an infinity and its underflow
  to zero are not modelled: \<open>Fin a * Fin b\<close> is \<open>Fin (a * b)\<close> whatever the magnitudes.

  Where the code can leave the finite numbers (a division whose divisor may be zero in
  \<^verbatim>\<open>rbiGuidelines.ts\<close>, \<^verbatim>\<open>parseFloat\<close> and \<^verbatim>\<open>parseInt\<close> in \<^verbatim>\<open>FileUpload.tsx\<close>) the
  value is a \<open>jsnum\<close>: a finite number, one of the two infinities, or \<^verbatim>\<open>NaN\<close>, with
  the arithmetic and comparisons of IEEE 754 on these. There is one zero; as a divisor
  it is the positive zero.

  The scoring engine (\<^verbatim>\<open>RealisticCreditEngine\<close>) is modelled on finite numbers. It
  divides by \<^verbatim>\<open>monthly_income\<close>; the data model requires \<^verbatim>\<open>monthly_income > 0\<close> before
  any ratio is computed, and the bounds proved below for values computed from such a
  quotient carry that hypothesis (JavaScript yields \<^verbatim>\<open>Infinity\<close> or \<^verbatim>\<open>NaN\<close> at
  \<^verbatim>\<open>monthly_income = 0\<close>, HOL yields \<open>0\<close>).
\<close>

datatype jsnum = NaN | Fin real | PInf | NInf

fun jadd :: "jsnum \<Rightarrow> jsnum \<Rightarrow> jsnum" where
  "jadd NaN _ = NaN"
| "jadd _ NaN = NaN"
| "jadd (Fin a) (Fin b) = Fin (a + b)"
| "jadd (Fin a) PInf = PInf"
| "jadd (Fin a) NInf = NInf"
| "jadd PInf (Fin b) = PInf"
| "jadd NInf (Fin b) = NInf"
| "jadd PInf PInf = PInf"
| "jadd NInf NInf = NInf"
| "jadd PInf NInf = NaN"
| "jadd NInf PInf = NaN"

fun jneg :: "jsnum \<Rightarrow> jsnum" where
  "jneg NaN = NaN"
| "jneg (Fin a) = Fin (- a)"
| "jneg PInf = NInf"
| "jneg NInf = PInf"

definition jsub :: "jsnum \<Rightarrow> jsnum \<Rightarrow> jsnum" where
  "jsub x y = jadd x (jneg y)"

text \<open>An infinity with the sign of a non-zero finite factor; \<open>0 * Infinity\<close> is \<^verbatim>\<open>NaN\<close>.\<close>

definition signed_inf :: "bool \<Rightarrow> real \<Rightarrow> jsnum" where
  "signed_inf positive b =
     (if b = 0 then NaN else if (0 < b) = positive then PInf else NInf)"

fun jmul :: "jsnum \<Rightarrow> jsnum \<Rightarrow> jsnum" where
  "jmul NaN _ = NaN"
| "jmul _ NaN = NaN"
| "jmul (Fin a) (Fin b) = Fin (a * b)"
| "jmul (Fin a) PInf = signed_inf True a"
| "jmul (Fin a) NInf = signed_inf False a"
| "jmul PInf (Fin b) = signed_inf True b"
| "jmul NInf (Fin b) = signed_inf False b"
| "jmul PInf PInf = PInf"
| "jmul NInf NInf = PInf"
| "jmul PInf NInf = NInf"
| "jmul NInf PInf = NInf"

text \<open>
  Division: \<open>0/0\<close> and \<open>Infinity/Infinity\<close> are \<^verbatim>\<open>NaN\<close>, a non-zero number over zero
  is the infinity of its sign, a finite number over an infinity is zero.
\<close>

fun jdiv :: "jsnum \<Rightarrow> jsnum \<Rightarrow> jsnum" where
  "jdiv NaN _ = NaN"
| "jdiv _ NaN = NaN"
| "jdiv (Fin a) (Fin b) =
     (if b = 0 then (if a = 0 then NaN else if 0 < a then PInf else NInf) else Fin (a / b))"
| "jdiv (Fin a) PInf = Fin 0"
| "jdiv (Fin a) NInf = Fin 0"
| "jdiv PInf (Fin b) = (if 0 \<le> b then PInf else NInf)"
| "jdiv NInf (Fin b) = (if 0 \<le> b then NInf else PInf)"
| "jdiv PInf PInf = NaN"
| "jdiv PInf NInf = NaN"
| "jdiv NInf PInf = NaN"
| "jdiv NInf NInf = NaN"

text \<open>The comparison \<^verbatim>\<open>x < y\<close>; every comparison with \<^verbatim>\<open>NaN\<close> is false.\<close>

fun jlt :: "jsnum \<Rightarrow> jsnum \<Rightarrow> bool" where
  "jlt NaN _ = False"
| "jlt _ NaN = False"
| "jlt (Fin a) (Fin b) = (a < b)"
| "jlt (Fin a) PInf = True"
| "jlt (Fin a) NInf = False"
| "jlt PInf _ = False"
| "jlt NInf (Fin b) = True"
| "jlt NInf PInf = True"
| "jlt NInf NInf = False"

definition jgt :: "jsnum \<Rightarrow> jsnum \<Rightarrow> bool" where
  "jgt x y = jlt y x"

text \<open>\<^verbatim>\<open>Math.max\<close> and \<^verbatim>\<open>Math.min\<close> of two numbers: \<^verbatim>\<open>NaN\<close> if either is.\<close>

definition jmax :: "jsnum \<Rightarrow> jsnum \<Rightarrow> jsnum" where
  "jmax x y = (if x = NaN \<or> y = NaN then NaN else if jlt x y then y else x)"

definition jmin :: "jsnum \<Rightarrow> jsnum \<Rightarrow> jsnum" where
  "jmin x y = (if x = NaN \<or> y = NaN then NaN else if jlt y x then y else x)"

text \<open>\<^verbatim>\<open>isNaN\<close>, and the truthiness of a number: \<^verbatim>\<open>NaN\<close> and zero are falsy.\<close>

definition isNaN :: "jsnum \<Rightarrow> bool" where
  "isNaN x = (x = NaN)"

definition truthy :: "jsnum \<Rightarrow> bool" where
  "truthy x = (x \<noteq> NaN \<and> x \<noteq> Fin 0)"

text \<open>\<^verbatim>\<open>x || d\<close> on numbers.\<close>

definition jor :: "jsnum \<Rightarrow> jsnum \<Rightarrow> jsnum" where
  "jor x d = (if truthy x then x else d)"

definition isFinite :: "jsnum \<Rightarrow> bool" where
  "isFinite x = (case x of Fin _ \<Rightarrow> True | _ \<Rightarrow> False)"

section \<open>Printing numbers\<close>

definition digit_char :: "nat \<Rightarrow> char" where
  "digit_char d = ''0123456789'' ! d"

text \<open>The decimal digits of a natural number, as \<^verbatim>\<open>String(n)\<close> prints an integer.\<close>

fun show_nat :: "nat \<Rightarrow> string" where
  "show_nat n = (if n < 10 then [digit_char n] else show_nat (n div 10) @ [digit_char (n mod 10)])"

declare show_nat.simps [simp del]

text \<open>
  \<^verbatim>\<open>x.toFixed(1)\<close>: the sign, then the integer \<open>n\<close> closest to \<open>10 * |x|\<close> (the larger
  one on a tie) with a point before its last digit. Numbers of magnitude \<open>10\<^sup>2\<^sup>1\<close> and
  more, which JavaScript prints in exponent notation, are printed in full here.
\<close>

definition toFixed1 :: "jsnum \<Rightarrow> string" where
  "toFixed1 x =
     (case x of
        NaN \<Rightarrow> ''NaN''
      | PInf \<Rightarrow> ''Infinity''
      | NInf \<Rightarrow> ''-Infinity''
      | Fin a \<Rightarrow>
          (let n = nat \<lfloor>\<bar>a\<bar> * 10 + 1/2\<rfloor>
           in (if a < 0 then ''-'' else '''')
              @ show_nat (n div 10) @ ''.'' @ [digit_char (n mod 10)]))"

section \<open>RBI compliance (utils/rbiGuidelines.ts)\<close>

record RBIComplianceCheck =
  isCompliant :: bool
  violations :: "string list"
  riskAdjustment :: int

record RBILoanLimits =
  maxLoanAmount :: nat
  maxTotalIndebtedness :: nat
  minIncomeThreshold :: nat

datatype rural_urban = Rural | Urban

record RBIBorrowerProfile =
  user_id :: string
  monthly_income :: real
  existing_loan_amount :: real
  household_income :: real
  rural_urban_classification :: rural_urban
  purpose_of_loan :: string
  collateral_free :: bool

definition LOAN_LIMITS :: RBILoanLimits where
  "LOAN_LIMITS = \<lparr>maxLoanAmount = 125000, maxTotalIndebtedness = 100000,
                  minIncomeThreshold = 5000\<rparr>"

definition INTEREST_RATE_CAP :: nat where
  "INTEREST_RATE_CAP = 26"

definition MIN_TENURE_MONTHS :: nat where
  "MIN_TENURE_MONTHS = 24"

text \<open>
  \<^verbatim>\<open>calculateEMI\<close>. The tenure is a number of months, a \<^typ>\<open>nat\<close>. The quotient is
  formed in \<open>jsnum\<close>: the divisor \<open>(1 + r)^n - 1\<close> is zero for a rate of zero or a tenure
  of zero, where JavaScript returns \<^verbatim>\<open>NaN\<close> or \<^verbatim>\<open>Infinity\<close>. Products, powers and
  the quotient are exact; the rounding of the doubles the program computes with is
  not modelled.
\<close>

definition calculateEMI :: "real \<Rightarrow> real \<Rightarrow> nat \<Rightarrow> jsnum" where
  "calculateEMI principal' annualRate tenureMonths =
     (let monthlyRate = annualRate / (12 * 100)
      in jdiv (Fin (principal' * monthlyRate * (1 + monthlyRate) ^ tenureMonths))
              (Fin ((1 + monthlyRate) ^ tenureMonths - 1)))"

text \<open>\<^verbatim>\<open>toLowerCase\<close> on ASCII letters.\<close>

definition lower_char :: "char \<Rightarrow> char" where
  "lower_char c =
     (let n = (of_char c :: nat) in if 65 \<le> n \<and> n \<le> 90 then char_of (n + 32) else c)"

definition toLowerCase :: "string \<Rightarrow> string" where
  "toLowerCase s = map lower_char s"

definition productivePurposes :: "string list" where
  "productivePurposes = [''business'', ''agriculture'', ''livestock'', ''education'', ''healthcare'']"

text \<open>
  The mutable pair of \<^verbatim>\<open>checkCompliance\<close>: the \<^verbatim>\<open>violations\<close> array and the running
  \<^verbatim>\<open>riskAdjustment\<close>. \<open>flag_if c message delta\<close> is one rule,
  \<^verbatim>\<open>if (c) { violations.push(message); riskAdjustment += delta; }\<close>, and
  \<open>adjust_if c delta\<close> is \<^verbatim>\<open>if (c) { riskAdjustment += delta; }\<close>.
\<close>

type_synonym check_state = "string list \<times> int"

definition flag_if :: "bool \<Rightarrow> string \<Rightarrow> int \<Rightarrow> check_state \<Rightarrow> check_state" where
  "flag_if c message delta s = (if c then (fst s @ [message], snd s + delta) else s)"

definition adjust_if :: "bool \<Rightarrow> int \<Rightarrow> check_state \<Rightarrow> check_state" where
  "adjust_if c delta s = (if c then (fst s, snd s + delta) else s)"

definition checkCompliance ::
  "RBIBorrowerProfile \<Rightarrow> real \<Rightarrow> real \<Rightarrow> nat \<Rightarrow> RBIComplianceCheck" where
  "checkCompliance profile requestedAmount proposedRate tenureMonths =
     (let s0 = ([], 0);
          s1 = flag_if (requestedAmount > real (maxLoanAmount LOAN_LIMITS))
                 (''Loan amount exceeds RBI limit of Rs. ''
                    @ show_nat (maxLoanAmount LOAN_LIMITS)) (- 15) s0;
          totalDebt = existing_loan_amount profile + requestedAmount;
          s2 = flag_if (totalDebt > real (maxTotalIndebtedness LOAN_LIMITS))
                 (''Total indebtedness exceeds RBI limit of Rs. ''
                    @ show_nat (maxTotalIndebtedness LOAN_LIMITS)) (- 10) s1;
          s3 = flag_if (monthly_income profile < real (minIncomeThreshold LOAN_LIMITS))
                 (''Monthly income below minimum threshold of Rs. ''
                    @ show_nat (minIncomeThreshold LOAN_LIMITS)) (- 20) s2;
          s4 = flag_if (proposedRate > real INTEREST_RATE_CAP)
                 (''Interest rate exceeds RBI cap of '' @ show_nat INTEREST_RATE_CAP @ ''%'')
                 (- 5) s3;
          s5 = flag_if (requestedAmount > 15000 \<and> tenureMonths < MIN_TENURE_MONTHS)
                 (''Tenure below minimum '' @ show_nat MIN_TENURE_MONTHS
                    @ '' months for loans above Rs. 15,000'') (- 5) s4;
          monthlyEMI = calculateEMI requestedAmount proposedRate tenureMonths;
          emiToIncomeRatio = jmul (jdiv monthlyEMI (Fin (monthly_income profile))) (Fin 100);
          s6 = (if jgt emiToIncomeRatio (Fin 50)
                then flag_if True (''EMI-to-income ratio ('' @ toFixed1 emiToIncomeRatio
                                     @ ''%) exceeds 50%'') (- 10) s5
                else adjust_if (jlt emiToIncomeRatio (Fin 30)) 5 s5);
          s7 = flag_if (\<not> collateral_free profile)
                 ''RBI mandates collateral-free lending for microfinance'' (- 5) s6;
          s8 = adjust_if (toLowerCase (purpose_of_loan profile) \<in> set productivePurposes) 3 s7
      in \<lparr>isCompliant = (length (fst s8) = 0),
          violations = fst s8,
          riskAdjustment = max (- 20) (min 10 (snd s8))\<rparr>)"

definition sample_borrower :: RBIBorrowerProfile where
  "sample_borrower =
     \<lparr>user_id = ''B001'', monthly_income = 15000, existing_loan_amount = 0,
      household_income = 20000, rural_urban_classification = Rural,
      purpose_of_loan = ''Business'', collateral_free = True\<rparr>"

section \<open>Data model of the scoring engine (types/index.ts)\<close>

datatype income_type = Salary | Business | Freelance | Daily_wage

datatype employment_type = Salaried | Self_employed | Student | Unemployed

record expense_categories =
  essentials :: real
  discretionary :: real
  investments :: real

text \<open>Interface \<^verbatim>\<open>UserData\<close>, without its optional RBI fields (the engine never reads them).\<close>

record UserData =
  user_id :: string
  monthly_income :: real
  income_type :: income_type
  income_stability_months :: real
  emergency_savings :: real
  electricity_bill_on_time :: real
  dth_recharge_on_time :: real
  internet_bill_on_time :: real
  rent_payment_on_time :: real
  overall_bill_payment_score :: real
  existing_loan_emi :: real
  credit_card_outstanding :: real
  previous_loan_defaults :: real
  loan_repayment_history_score :: real
  upi_transactions_per_month :: real
  digital_wallet_usage :: real
  online_bill_payments :: real
  digital_financial_activity_score :: real
  monthly_expenses :: real
  savings_rate :: real
  expense_categories :: expense_categories
  age :: real
  employment_type :: employment_type
  years_of_employment :: real
  city_tier :: real

datatype risk_band = Excellent | Good | Fair | Poor | Very_Poor

datatype decision = Approve | Review | Reject

record emi_option =
  tenure :: nat
  emi :: int
  total_interest :: int
  total_amount :: int

record interest_rate_range =
  range_min :: real
  range_max :: real

record LoanEligibility =
  eligible :: bool
  max_amount :: int
  recommended_amount :: int
  tenure_options :: "nat list"
  interest_rate_range :: interest_rate_range
  emi_options :: "emi_option list"

record score_components =
  payment_history :: real
  credit_utilization :: real
  income_stability :: real
  digital_behavior :: real

text \<open>
  Interface \<^verbatim>\<open>RiskScore\<close>, the result of one scoring call. The advisory texts
  (\<^verbatim>\<open>improvement_suggestions\<close>, \<^verbatim>\<open>financial_coaching\<close>, \<^verbatim>\<open>peer_comparison\<close>) are left out;
  the component weights are the constants 40, 25, 20, 15 of the source.
\<close>

record RiskScore =
  rs_user_id :: string
  credit_score :: int
  risk_band :: risk_band
  default_probability :: int
  decision :: decision
  score_components :: score_components
  max_eligible_amount :: int
  recommended_emi :: int
  optimal_tenure_months :: nat
  percentile_rank :: nat
  rbi_compliant :: bool
  rbi_violations :: "string list"
  emi_to_income_ratio :: real

section \<open>RealisticCreditEngine\<close>

definition calculatePaymentHistoryScore :: "UserData \<Rightarrow> real" where
  "calculatePaymentHistoryScore userData =
     (let billPaymentScore =
            electricity_bill_on_time userData * 0.3 +
            dth_recharge_on_time userData * 0.2 +
            internet_bill_on_time userData * 0.2 +
            rent_payment_on_time userData * 0.3;
          loanRepaymentScore = loan_repayment_history_score userData;
          defaultPenalty = previous_loan_defaults userData * 20
      in max 0 (min 100 ((billPaymentScore * 0.6 + loanRepaymentScore * 0.4) - defaultPenalty)))"

definition calculateCreditUtilizationScore :: "UserData \<Rightarrow> real" where
  "calculateCreditUtilizationScore userData =
     (let debtToIncomeRatio =
            (existing_loan_emi userData + credit_card_outstanding userData * 0.05)
              / monthly_income userData;
          expenseToIncomeRatio = monthly_expenses userData / monthly_income userData;
          utilizationScore = max 0 (100 - debtToIncomeRatio * 200);
          spendingScore = max 0 (100 - expenseToIncomeRatio * 100)
      in utilizationScore * 0.7 + spendingScore * 0.3)"

fun incomeTypeScore :: "income_type \<Rightarrow> real" where
  "incomeTypeScore Salary = 90"
| "incomeTypeScore Business = 70"
| "incomeTypeScore Freelance = 60"
| "incomeTypeScore Daily_wage = 40"

definition calculateIncomeStabilityScore :: "UserData \<Rightarrow> real" where
  "calculateIncomeStabilityScore userData =
     (let stabilityBonus = min 20 (income_stability_months userData * 2);
          employmentScore = min 30 (years_of_employment userData * 5);
          savingsScore = min 25 (savings_rate userData * 2.5)
      in min 100 (incomeTypeScore (income_type userData) + stabilityBonus
                    + employmentScore + savingsScore))"

definition calculateDigitalBehaviorScore :: "UserData \<Rightarrow> real" where
  "calculateDigitalBehaviorScore userData =
     (let upiScore = min 30 (upi_transactions_per_month userData * 2);
          walletScore = min 25 (digital_wallet_usage userData * 2.5);
          onlineBillScore = online_bill_payments userData * 0.3;
          digitalActivityScore = digital_financial_activity_score userData * 0.15
      in upiScore + walletScore + onlineBillScore + digitalActivityScore)"

definition getRiskBand :: "real \<Rightarrow> risk_band" where
  "getRiskBand creditScore =
     (if creditScore \<ge> 750 then Excellent
      else if creditScore \<ge> 650 then Good
      else if creditScore \<ge> 550 then Fair
      else if creditScore \<ge> 450 then Poor
      else Very_Poor)"

definition calculateDefaultProbability :: "real \<Rightarrow> UserData \<Rightarrow> int" where
  "calculateDefaultProbability creditScore userData =
     (let b0 = max 1 (50 - ((creditScore - 300) / 12));
          b1 = (if previous_loan_defaults userData > 0
                then b0 + previous_loan_defaults userData * 15 else b0);
          b2 = (if existing_loan_emi userData / monthly_income userData > 0.5
                then b1 + 10 else b1);
          b3 = (if emergency_savings userData < monthly_expenses userData
                then b2 + 8 else b2)
      in min 95 (max 1 (round b3)))"

definition getInterestRate :: "real \<Rightarrow> real" where
  "getInterestRate creditScore =
     (if creditScore \<ge> 750 then 18
      else if creditScore \<ge> 650 then 22
      else if creditScore \<ge> 550 then 24
      else 26)"

text \<open>The body of the \<^verbatim>\<open>map\<close> callback of \<^verbatim>\<open>calculateLoanEligibility\<close>.\<close>

definition emiOption :: "int \<Rightarrow> real \<Rightarrow> nat \<Rightarrow> emi_option" where
  "emiOption recommendedAmount interestRate tenure' =
     (let monthlyRate = interestRate / 100 / 12;
          emi' = round ((of_int recommendedAmount * monthlyRate * (1 + monthlyRate) ^ tenure')
                         / ((1 + monthlyRate) ^ tenure' - 1));
          totalAmount = emi' * int tenure';
          totalInterest = totalAmount - recommendedAmount
      in \<lparr>tenure = tenure', emi = emi', total_interest = totalInterest,
          total_amount = totalAmount\<rparr>)"

text \<open>The local constant \<^verbatim>\<open>scoreMultiplier\<close> of \<^verbatim>\<open>calculateLoanEligibility\<close>.\<close>

definition scoreMultiplier :: "real \<Rightarrow> real" where
  "scoreMultiplier creditScore =
     (if creditScore \<ge> 750 then 1.0
      else if creditScore \<ge> 650 then 0.8
      else if creditScore \<ge> 550 then 0.6 else 0.4)"

definition calculateLoanEligibility :: "UserData \<Rightarrow> real \<Rightarrow> LoanEligibility" where
  "calculateLoanEligibility userData creditScore =
     (let maxEMICapacity = monthly_income userData * 0.4 - existing_loan_emi userData;
          baseAmount = min 125000 (monthly_income userData * 10);
          maxAmount = round (baseAmount * scoreMultiplier creditScore);
          recommendedAmount = round (real_of_int maxAmount * 0.7);
          tenureOptions = [12, 18, 24, 36];
          interestRate = getInterestRate creditScore;
          emiOptions = filter (\<lambda>option. of_int (emi option) \<le> maxEMICapacity)
                         (map (emiOption recommendedAmount interestRate) tenureOptions)
      in \<lparr>eligible = (maxAmount > 10000 \<and> length emiOptions > 0),
          max_amount = maxAmount,
          recommended_amount = recommendedAmount,
          tenure_options = tenureOptions,
          interest_rate_range = \<lparr>range_min = interestRate, range_max = interestRate + 2\<rparr>,
          emi_options = emiOptions\<rparr>)"

definition calculatePercentileRank :: "real \<Rightarrow> nat" where
  "calculatePercentileRank creditScore =
     (if creditScore \<ge> 800 then 95
      else if creditScore \<ge> 750 then 85
      else if creditScore \<ge> 700 then 70
      else if creditScore \<ge> 650 then 55
      else if creditScore \<ge> 600 then 40
      else if creditScore \<ge> 550 then 25
      else 10)"

definition makeDecision :: "real \<Rightarrow> real \<Rightarrow> decision" where
  "makeDecision creditScore defaultProbability =
     (if creditScore \<ge> 650 \<and> defaultProbability \<le> 20 then Approve
      else if creditScore \<ge> 550 \<and> defaultProbability \<le> 35 then Review
      else Reject)"

definition checkRBICompliance :: "UserData \<Rightarrow> real \<Rightarrow> bool" where
  "checkRBICompliance userData loanAmount =
     (if loanAmount > 125000 then False
      else if existing_loan_emi userData / monthly_income userData > 0.5 then False
      else True)"

text \<open>The rupee sign of the first message is the three bytes of its UTF-8 encoding.\<close>

definition getRBIViolations :: "UserData \<Rightarrow> real \<Rightarrow> string list" where
  "getRBIViolations userData loanAmount =
     (if loanAmount > 125000
      then [''Loan amount exceeds RBI limit of '' @ [CHR 0xE2, CHR 0x82, CHR 0xB9] @ ''1.25L'']
      else [])
     @ (if existing_loan_emi userData / monthly_income userData > 0.5
        then [''EMI-to-income ratio exceeds 50%''] else [])"

text \<open>
  \<^verbatim>\<open>emi_options[0]?.emi || 0\<close>: the EMI of the first retained option, \<open>0\<close> when there is
  none (or when that EMI is itself \<open>0\<close>, which is falsy).
\<close>

definition firstEmiOr0 :: "emi_option list \<Rightarrow> int" where
  "firstEmiOr0 opts = (case opts of [] \<Rightarrow> 0 | opt # _ \<Rightarrow> (if emi opt = 0 then 0 else emi opt))"

text \<open>\<^verbatim>\<open>tenure_options[0] || 12\<close>.\<close>

definition firstTenureOr12 :: "nat list \<Rightarrow> nat" where
  "firstTenureOr12 ts = (case ts of [] \<Rightarrow> 12 | t # _ \<Rightarrow> (if t = 0 then 12 else t))"

definition calculateCreditScore :: "UserData \<Rightarrow> RiskScore" where
  "calculateCreditScore userData =
     (let paymentHistoryScore = calculatePaymentHistoryScore userData;
          creditUtilizationScore = calculateCreditUtilizationScore userData;
          incomeStabilityScore = calculateIncomeStabilityScore userData;
          digitalBehaviorScore = calculateDigitalBehaviorScore userData;
          weightedScore = paymentHistoryScore * 0.40 + creditUtilizationScore * 0.25
                            + incomeStabilityScore * 0.20 + digitalBehaviorScore * 0.15;
          creditScore = round (300 + weightedScore * 6);
          riskBand = getRiskBand (of_int creditScore);
          defaultProbability = calculateDefaultProbability (of_int creditScore) userData;
          loanEligibility = calculateLoanEligibility userData (of_int creditScore);
          percentileRank = calculatePercentileRank (of_int creditScore)
      in \<lparr>rs_user_id = user_id userData,
          credit_score = creditScore,
          risk_band = riskBand,
          default_probability = defaultProbability,
          decision = makeDecision (of_int creditScore) (of_int defaultProbability),
          score_components =
            \<lparr>payment_history = paymentHistoryScore,
             credit_utilization = creditUtilizationScore,
             income_stability = incomeStabilityScore,
             digital_behavior = digitalBehaviorScore\<rparr>,
          max_eligible_amount = max_amount loanEligibility,
          recommended_emi = firstEmiOr0 (emi_options loanEligibility),
          optimal_tenure_months = firstTenureOr12 (tenure_options loanEligibility),
          percentile_rank = percentileRank,
          rbi_compliant = checkRBICompliance userData (of_int (max_amount loanEligibility)),
          rbi_violations = getRBIViolations userData (of_int (max_amount loanEligibility)),
          emi_to_income_ratio =
            of_int (firstEmiOr0 (emi_options loanEligibility)) / monthly_income userData * 100\<rparr>)"

text \<open>
  A valid \<^verbatim>\<open>BorrowerProfile\<close> in the words of the data model: positive income,
  percentage fields within \<open>[0,100]\<close>, counts and amounts non-negative.
\<close>

definition valid_profile :: "UserData \<Rightarrow> bool" where
  "valid_profile u \<longleftrightarrow>
     monthly_income u > 0 \<and>
     0 \<le> electricity_bill_on_time u \<and> electricity_bill_on_time u \<le> 100 \<and>
     0 \<le> dth_recharge_on_time u \<and> dth_recharge_on_time u \<le> 100 \<and>
     0 \<le> internet_bill_on_time u \<and> internet_bill_on_time u \<le> 100 \<and>
     0 \<le> rent_payment_on_time u \<and> rent_payment_on_time u \<le> 100 \<and>
     0 \<le> overall_bill_payment_score u \<and> overall_bill_payment_score u \<le> 100 \<and>
     0 \<le> loan_repayment_history_score u \<and> loan_repayment_history_score u \<le> 100 \<and>
     0 \<le> online_bill_payments u \<and> online_bill_payments u \<le> 100 \<and>
     0 \<le> digital_financial_activity_score u \<and> digital_financial_activity_score u \<le> 100 \<and>
     0 \<le> savings_rate u \<and> savings_rate u \<le> 100 \<and>
     0 \<le> income_stability_months u \<and>
     0 \<le> years_of_employment u \<and>
     0 \<le> emergency_savings u \<and>
     0 \<le> monthly_expenses u \<and>
     0 \<le> previous_loan_defaults u \<and>
     0 \<le> existing_loan_emi u \<and>
     0 \<le> credit_card_outstanding u \<and>
     0 \<le> upi_transactions_per_month u \<and>
     0 \<le> digital_wallet_usage u"

text \<open>The applicant of the first scenario of the specification, used to exercise the theorems.\<close>

definition sample_user :: UserData where
  "sample_user =
     \<lparr>user_id = ''U001'', monthly_income = 15000, income_type = Salary,
      income_stability_months = 12, emergency_savings = 20000,
      electricity_bill_on_time = 95, dth_recharge_on_time = 95,
      internet_bill_on_time = 95, rent_payment_on_time = 95,
      overall_bill_payment_score = 95, existing_loan_emi = 0,
      credit_card_outstanding = 0, previous_loan_defaults = 0,
      loan_repayment_history_score = 90, upi_transactions_per_month = 40,
      digital_wallet_usage = 6, online_bill_payments = 70,
      digital_financial_activity_score = 100, monthly_expenses = 9000,
      savings_rate = 15,
      expense_categories = \<lparr>essentials = 6300, discretionary = 1800, investments = 900\<rparr>,
      age = 30, employment_type = Salaried, years_of_employment = 3, city_tier = 2\<rparr>"

section \<open>CSV ingestion (components/FileUpload.tsx)\<close>

subsection \<open>String functions of the language\<close>

text \<open>
  Strings are byte strings; the model covers ASCII text. White space is what
  \<^verbatim>\<open>String.prototype.trim\<close> removes in that range: tab, line feed, vertical tab, form
  feed, carriage return and space.
\<close>

definition is_ws :: "char \<Rightarrow> bool" where
  "is_ws c = (c \<in> set [CHR 0x09, CHR 0x0A, CHR 0x0B, CHR 0x0C, CHR 0x0D, CHR '' ''])"

definition trimStart :: "string \<Rightarrow> string" where
  "trimStart s = dropWhile is_ws s"

definition trim :: "string \<Rightarrow> string" where
  "trim s = rev (dropWhile is_ws (rev (dropWhile is_ws s)))"

text \<open>\<^verbatim>\<open>s.split(c)\<close> for a one-character separator; the result is never empty.\<close>

fun split_char :: "char \<Rightarrow> string \<Rightarrow> string list" where
  "split_char c [] = [ [] ]"
| "split_char c (x # xs) =
     (if x = c then [] # split_char c xs
      else (case split_char c xs of
              [] \<Rightarrow> [ [x] ]
            | w # ws \<Rightarrow> (x # w) # ws))"

text \<open>\<^verbatim>\<open>xs[i]\<close>: \<^verbatim>\<open>undefined\<close> (here \<open>None\<close>) beyond the end of the array.\<close>

definition nth_opt :: "'a list \<Rightarrow> nat \<Rightarrow> 'a option" where
  "nth_opt xs i = (if i < length xs then Some (xs ! i) else None)"

text \<open>\<^verbatim>\<open>String(value)\<close> for a cell that is a string or \<^verbatim>\<open>undefined\<close>.\<close>

definition toString_cell :: "string option \<Rightarrow> string" where
  "toString_cell value = (case value of None \<Rightarrow> ''undefined'' | Some s \<Rightarrow> s)"

subsection \<open>parseFloat and parseInt\<close>

definition is_digit :: "char \<Rightarrow> bool" where
  "is_digit c = (c \<in> set ''0123456789'')"

definition digit_val :: "char \<Rightarrow> nat" where
  "digit_val c = of_char c - 48"

definition is_hex_digit :: "char \<Rightarrow> bool" where
  "is_hex_digit c = (c \<in> set ''0123456789abcdefABCDEF'')"

definition hex_val :: "char \<Rightarrow> nat" where
  "hex_val c =
     (if is_digit c then of_char c - 48
      else if c \<in> set ''abcdef'' then of_char c - 87
      else of_char c - 55)"

text \<open>The value of a digit string in a radix, most significant digit first.\<close>

definition digits_value :: "nat \<Rightarrow> (char \<Rightarrow> nat) \<Rightarrow> string \<Rightarrow> nat" where
  "digits_value radix val ds = foldl (\<lambda>acc c. radix * acc + val c) 0 ds"

text \<open>
  The exponent part \<^verbatim>\<open>e\<close>, \<^verbatim>\<open>E\<close> with an optional sign and at least one digit, at
  the head of a string; \<open>0\<close> when there is none.
\<close>

definition exponent_part :: "string \<Rightarrow> int" where
  "exponent_part s =
     (case s of
        [] \<Rightarrow> 0
      | c # t \<Rightarrow>
          if c = CHR ''e'' \<or> c = CHR ''E'' then
            (let negative = (case t of [] \<Rightarrow> False | d # _ \<Rightarrow> d = CHR ''-'');
                 t' = (case t of [] \<Rightarrow> []
                       | d # t2 \<Rightarrow> if d = CHR ''+'' \<or> d = CHR ''-'' then t2 else t);
                 ds = takeWhile is_digit t'
             in if ds = [] then 0
                else if negative then - int (digits_value 10 digit_val ds)
                else int (digits_value 10 digit_val ds))
          else 0)"

definition pow10 :: "int \<Rightarrow> real" where
  "pow10 e = (if 0 \<le> e then 10 ^ nat e else 1 / 10 ^ nat (- e))"

text \<open>
  The longest prefix that is a \<^verbatim>\<open>StrUnsignedDecimalLiteral\<close> and its value:
  \<^verbatim>\<open>Infinity\<close>, or digits with an optional fraction and exponent, or a fraction that
  starts with the point. \<^verbatim>\<open>NaN
  The value is the exact decimal number: a literal beyond the range of a double, which
  JavaScript reads as \<^verbatim>\<open>Infinity\<close>, or below its precision, which it reads as 0, is
  outside what the model follows.
\<close> when no prefix is one.
\<close>

definition unsigned_decimal :: "string \<Rightarrow> jsnum" where
  "unsigned_decimal s =
     (if take 8 s = ''Infinity'' then PInf
      else
        (let ip = takeWhile is_digit s;
             r1 = dropWhile is_digit s;
             has_point = (case r1 of [] \<Rightarrow> False | c # _ \<Rightarrow> c = CHR ''.'');
             fp = (if has_point then takeWhile is_digit (tl r1) else []);
             r2 = (if has_point then dropWhile is_digit (tl r1) else r1)
         in if ip = [] \<and> fp = [] then NaN
            else Fin ((real (digits_value 10 digit_val ip)
                        + real (digits_value 10 digit_val fp) / 10 ^ length fp)
                      * pow10 (exponent_part r2))))"

text \<open>\<^verbatim>\<open>parseFloat(string)\<close>: leading white space, an optional sign, the literal.\<close>

definition parseFloat :: "string \<Rightarrow> jsnum" where
  "parseFloat s =
     (case trimStart s of
        [] \<Rightarrow> NaN
      | c # r \<Rightarrow>
          if c = CHR ''+'' then unsigned_decimal r
          else if c = CHR ''-'' then jneg (unsigned_decimal r)
          else unsigned_decimal (c # r))"

text \<open>
  \<^verbatim>\<open>parseInt(string)\<close> without a radix: leading white space, an optional sign, then
  hexadecimal digits after \<^verbatim>\<open>0x\<close> or \<^verbatim>\<open>0X\<close>, decimal digits otherwise; \<^verbatim>\<open>NaN\<close>
  when there is no digit.
\<close>

definition parseInt :: "string \<Rightarrow> jsnum" where
  "parseInt s =
     (let t = trimStart s;
          negative = (case t of [] \<Rightarrow> False | c # _ \<Rightarrow> c = CHR ''-'');
          t1 = (case t of [] \<Rightarrow> []
                | c # r \<Rightarrow> if c = CHR ''+'' \<or> c = CHR ''-'' then r else t);
          hex = (take 2 t1 = ''0x'' \<or> take 2 t1 = ''0X'');
          ds = (if hex then takeWhile is_hex_digit (drop 2 t1) else takeWhile is_digit t1);
          n = (if hex then digits_value 16 hex_val ds else digits_value 10 digit_val ds)
      in if ds = [] then NaN
         else if negative then Fin (- real n) else Fin (real n))"

subsection \<open>The object under construction\<close>

text \<open>
  \<^verbatim>\<open>const userData: any = {}\<close> is a dictionary from property names to values. Each
  property the parser writes holds either a string or a number, so the object is a pair
  of maps; a property that is absent, or was assigned \<^verbatim>\<open>undefined\<close>, reads as
  \<open>None\<close>. The nested \<^verbatim>\<open>expense_categories\<close> object is stored under the dotted names
  \<^verbatim>\<open>expense_categories.essentials\<close> and so on.
\<close>

record userObj =
  strs :: "string \<rightharpoonup> string"
  nums :: "string \<rightharpoonup> jsnum"

definition empty_obj :: userObj where
  "empty_obj = \<lparr>strs = Map.empty, nums = Map.empty\<rparr>"

definition set_str :: "string \<Rightarrow> string option \<Rightarrow> userObj \<Rightarrow> userObj" where
  "set_str k v u = u\<lparr>strs := (strs u)(k := v)\<rparr>"

definition set_num :: "string \<Rightarrow> jsnum \<Rightarrow> userObj \<Rightarrow> userObj" where
  "set_num k x u = u\<lparr>nums := (nums u)(k \<mapsto> x)\<rparr>"

text \<open>A numeric property used as an operand: \<^verbatim>\<open>undefined\<close> converts to \<^verbatim>\<open>NaN\<close>.\<close>

definition getn :: "userObj \<Rightarrow> string \<Rightarrow> jsnum" where
  "getn u k = (case nums u k of None \<Rightarrow> NaN | Some x \<Rightarrow> x)"

datatype js_error = Error string | TypeError

subsection \<open>validateCSVFormat\<close>





subsection \<open>The switch over the header of a cell\<close>

text \<open>
  The three shapes of a numeric case. \<open>assign_float k d\<close> is
  \<^verbatim>\<open>userData.k = parseFloat(value) || d\<close>, \<open>assign_int k d\<close> is
  \<^verbatim>\<open>userData.k = parseInt(value) || d\<close>, and \<open>assign_percent k d\<close> is
  \<^verbatim>\<open>userData.k = parseFloat(value.replace('%', '')) || d\<close>, where calling
  \<^verbatim>\<open>replace\<close> on \<^verbatim>\<open>undefined\<close> throws a \<^verbatim>\<open>TypeError\<close>. \<^verbatim>\<open>replace\<close> with a string
  pattern removes the first occurrence only.
\<close>

definition assign_float :: "string \<Rightarrow> jsnum \<Rightarrow> string option \<Rightarrow> userObj \<Rightarrow> js_error + userObj" where
  "assign_float k d value u = Inr (set_num k (jor (parseFloat (toString_cell value)) d) u)"

definition assign_int :: "string \<Rightarrow> jsnum \<Rightarrow> string option \<Rightarrow> userObj \<Rightarrow> js_error + userObj" where
  "assign_int k d value u = Inr (set_num k (jor (parseInt (toString_cell value)) d) u)"

definition assign_percent :: "string \<Rightarrow> jsnum \<Rightarrow> string option \<Rightarrow> userObj \<Rightarrow> js_error + userObj" where
  "assign_percent k d value u =
     (case value of
        None \<Rightarrow> Inl TypeError
      | Some v \<Rightarrow> Inr (set_num k (jor (parseFloat (remove1 CHR ''%'' v)) d) u))"

text \<open>\<^verbatim>\<open>value || d\<close> on a string cell: the empty string and \<^verbatim>\<open>undefined\<close> are falsy.\<close>

definition str_or :: "string option \<Rightarrow> string \<Rightarrow> string" where
  "str_or value d = (case value of None \<Rightarrow> d | Some s \<Rightarrow> if s = [] then d else s)"

text \<open>
  The \<^verbatim>\<open>switch (header)\<close> as the list of its cases, each a label and the assignment
  made under it; every case ends in \<^verbatim>\<open>break\<close>, and a header that matches no label
  changes nothing.
\<close>

type_synonym switch_case = "string option \<Rightarrow> userObj \<Rightarrow> js_error + userObj"

definition switch_cases :: "(string \<times> switch_case) list" where
  "switch_cases =
     [(''user_id'', \<lambda>value u. Inr (set_str ''user_id'' value u)),
      (''monthly_income'', assign_float ''monthly_income'' (Fin 25000)),
      (''income_type'',
         \<lambda>value u. Inr (set_str ''income_type'' (Some (str_or value ''salary'')) u)),
      (''income_stability_months'', assign_int ''income_stability_months'' (Fin 6)),
      (''emergency_savings'', assign_float ''emergency_savings'' (Fin 0)),
      (''electricity_bill_on_time'', assign_percent ''electricity_bill_on_time'' (Fin 80)),
      (''dth_recharge_on_time'', assign_percent ''dth_recharge_on_time'' (Fin 75)),
      (''internet_bill_on_time'', assign_percent ''internet_bill_on_time'' (Fin 85)),
      (''rent_payment_on_time'', assign_percent ''rent_payment_on_time'' (Fin 90)),
      (''existing_loan_emi'', assign_float ''existing_loan_emi'' (Fin 0)),
      (''credit_card_outstanding'', assign_float ''credit_card_outstanding'' (Fin 0)),
      (''previous_loan_defaults'', assign_int ''previous_loan_defaults'' (Fin 0)),
      (''upi_transactions_per_month'', assign_int ''upi_transactions_per_month'' (Fin 15)),
      (''digital_wallet_usage'', assign_float ''digital_wallet_usage'' (Fin 20)),
      (''online_bill_payments'', assign_percent ''online_bill_payments'' (Fin 70)),
      (''monthly_expenses'',
         \<lambda>value u. assign_float ''monthly_expenses''
                      (jmul (jor (getn u ''monthly_income'') (Fin 25000)) (Fin 0.6)) value u),
      (''savings_rate'', assign_percent ''savings_rate'' (Fin 15)),
      (''age'', assign_int ''age'' (Fin 25)),
      (''employment_type'',
         \<lambda>value u. Inr (set_str ''employment_type'' (Some (str_or value ''salaried'')) u)),
      (''years_of_employment'', assign_float ''years_of_employment'' (Fin 1)),
      (''city_tier'', assign_int ''city_tier'' (Fin 2))]"

definition switch_header :: "string \<Rightarrow> switch_case" where
  "switch_header header value u =
     (case map_of switch_cases header of
        None \<Rightarrow> Inr u
      | Some assign \<Rightarrow> assign value u)"

text \<open>
  \<^verbatim>\<open>headers.forEach((header, index) => ...)\<close> from position \<open>index\<close> on; a throw ends
  the loop.
\<close>

fun forEach_headers :: "string list \<Rightarrow> nat \<Rightarrow> string list \<Rightarrow> userObj \<Rightarrow> js_error + userObj" where
  "forEach_headers [] index values u = Inr u"
| "forEach_headers (header # rest) index values u =
     (case switch_header header (nth_opt values index) u of
        Inl e \<Rightarrow> Inl e
      | Inr u' \<Rightarrow> forEach_headers rest (Suc index) values u')"

subsection \<open>Validation of the numeric fields and derived fields\<close>

text \<open>
  \<^verbatim>\<open>safeParseFloat\<close> and \<^verbatim>\<open>safeParseInt\<close> are applied to properties that are numbers or
  \<^verbatim>\<open>undefined\<close>. \<^verbatim>\<open>parseFloat\<close> of a number prints and re-reads it, which gives the
  number back; of \<^verbatim>\<open>undefined\<close> it is \<^verbatim>\<open>NaN\<close>. \<^verbatim>\<open>parseInt\<close> of a finite number printed
  in plain decimal notation is its integer part, and of an infinity it is \<^verbatim>\<open>NaN\<close>.
  A number of magnitude \<open>10\<^sup>2\<^sup>1\<close> or more is printed in exponent notation, of which
  \<^verbatim>\<open>parseInt\<close> reads the leading digits only (\<^verbatim>\<open>1e+21\<close> gives 1); the model returns
  the integer part there too, so above \<open>10\<^sup>2\<^sup>1\<close> it gives the field's finiteness and
  not its value.
\<close>

definition trunc :: "real \<Rightarrow> int" where
  "trunc a = (if 0 \<le> a then \<lfloor>a\<rfloor> else \<lceil>a\<rceil>)"

definition safeParseFloat :: "jsnum option \<Rightarrow> jsnum \<Rightarrow> jsnum" where
  "safeParseFloat val defaultVal =
     (let parsed = (case val of None \<Rightarrow> NaN | Some x \<Rightarrow> x)
      in if isNaN parsed then defaultVal else parsed)"

definition safeParseInt :: "jsnum option \<Rightarrow> jsnum \<Rightarrow> jsnum" where
  "safeParseInt val defaultVal =
     (let parsed = (case val of
                      Some (Fin a) \<Rightarrow> Fin (of_int (trunc a))
                    | _ \<Rightarrow> NaN)
      in if isNaN parsed then defaultVal else parsed)"

text \<open>\<^verbatim>\<open>userData.k = safeParseFloat(userData.k, d)\<close> and its integer variant.\<close>

definition revalidate_float :: "string \<Rightarrow> jsnum \<Rightarrow> userObj \<Rightarrow> userObj" where
  "revalidate_float k d u = set_num k (safeParseFloat (nums u k) d) u"

definition revalidate_int :: "string \<Rightarrow> jsnum \<Rightarrow> userObj \<Rightarrow> userObj" where
  "revalidate_int k d u = set_num k (safeParseInt (nums u k) d) u"

definition validate_monthly_expenses :: "userObj \<Rightarrow> userObj" where
  "validate_monthly_expenses u =
     revalidate_float ''monthly_expenses'' (jmul (getn u ''monthly_income'') (Fin 0.6)) u"

definition validate_numeric_fields :: "userObj \<Rightarrow> userObj" where
  "validate_numeric_fields =
     revalidate_int ''city_tier'' (Fin 2)
     \<circ> revalidate_int ''income_stability_months'' (Fin 6)
     \<circ> revalidate_int ''age'' (Fin 25)
     \<circ> revalidate_int ''upi_transactions_per_month'' (Fin 15)
     \<circ> revalidate_int ''previous_loan_defaults'' (Fin 0)
     \<circ> revalidate_float ''savings_rate'' (Fin 15)
     \<circ> revalidate_float ''online_bill_payments'' (Fin 70)
     \<circ> revalidate_float ''rent_payment_on_time'' (Fin 90)
     \<circ> revalidate_float ''internet_bill_on_time'' (Fin 85)
     \<circ> revalidate_float ''dth_recharge_on_time'' (Fin 75)
     \<circ> revalidate_float ''electricity_bill_on_time'' (Fin 80)
     \<circ> revalidate_float ''years_of_employment'' (Fin 1)
     \<circ> revalidate_float ''digital_wallet_usage'' (Fin 20)
     \<circ> revalidate_float ''credit_card_outstanding'' (Fin 0)
     \<circ> revalidate_float ''existing_loan_emi'' (Fin 0)
     \<circ> revalidate_float ''emergency_savings'' (Fin 0)
     \<circ> validate_monthly_expenses
     \<circ> revalidate_float ''monthly_income'' (Fin 25000)"

definition set_string_defaults :: "userObj \<Rightarrow> userObj" where
  "set_string_defaults u =
     set_str ''employment_type'' (Some (str_or (strs u ''employment_type'') ''salaried''))
       (set_str ''income_type'' (Some (str_or (strs u ''income_type'') ''salary'')) u)"

definition set_overall_bill_payment_score :: "userObj \<Rightarrow> userObj" where
  "set_overall_bill_payment_score u =
     set_num ''overall_bill_payment_score''
       (jadd (jadd (jadd (jmul (getn u ''electricity_bill_on_time'') (Fin 0.3))
                         (jmul (getn u ''dth_recharge_on_time'') (Fin 0.2)))
                   (jmul (getn u ''internet_bill_on_time'') (Fin 0.2)))
             (jmul (getn u ''rent_payment_on_time'') (Fin 0.3))) u"

definition set_loan_repayment_history_score :: "userObj \<Rightarrow> userObj" where
  "set_loan_repayment_history_score u =
     set_num ''loan_repayment_history_score''
       (jmax (Fin 0) (jsub (Fin 90) (jmul (getn u ''previous_loan_defaults'') (Fin 30)))) u"

definition set_digital_financial_activity_score :: "userObj \<Rightarrow> userObj" where
  "set_digital_financial_activity_score u =
     set_num ''digital_financial_activity_score''
       (jmin (Fin 100)
          (jadd (jadd (jmul (getn u ''upi_transactions_per_month'') (Fin 2))
                      (jmul (getn u ''digital_wallet_usage'') (Fin 1.5)))
                (jmul (getn u ''online_bill_payments'') (Fin 0.5)))) u"

definition set_expense_categories :: "userObj \<Rightarrow> userObj" where
  "set_expense_categories u =
     set_num ''expense_categories.investments'' (jmul (getn u ''monthly_expenses'') (Fin 0.1))
       (set_num ''expense_categories.discretionary'' (jmul (getn u ''monthly_expenses'') (Fin 0.2))
          (set_num ''expense_categories.essentials'' (jmul (getn u ''monthly_expenses'') (Fin 0.7))
             u))"

text \<open>Everything the row callback does after the \<^verbatim>\<open>forEach\<close>.\<close>

definition finish_row :: "userObj \<Rightarrow> userObj" where
  "finish_row =
     set_expense_categories
     \<circ> set_digital_financial_activity_score
     \<circ> set_loan_repayment_history_score
     \<circ> set_overall_bill_payment_score
     \<circ> set_string_defaults
     \<circ> validate_numeric_fields"

subsection \<open>parseCSV\<close>

definition row_values :: "string \<Rightarrow> string list" where
  "row_values line = map trim (split_char CHR '','' line)"

definition parseRow :: "string list \<Rightarrow> string \<Rightarrow> js_error + userObj" where
  "parseRow headers line =
     (case forEach_headers headers 0 (row_values line) empty_obj of
        Inl e \<Rightarrow> Inl e
      | Inr u \<Rightarrow> Inr (finish_row u))"


definition csv_lines :: "string \<Rightarrow> string list" where
  "csv_lines csvText = split_char (CHR 0x0A) (trim csvText)"



subsection \<open>The numeric columns\<close>

text \<open>
  A summary of the numeric cases of the switch, used to state the properties of the
  parser: the columns whose cell is read as a percentage, the columns read by
  \<^verbatim>\<open>parseInt\<close>, and the constant default of every numeric column but
  \<^verbatim>\<open>monthly_expenses\<close>, whose default is computed from the income. That the switch
  agrees with this summary is lemma \<open>switch_header_numeric\<close>.
\<close>

definition percent_columns :: "string list" where
  "percent_columns =
     [''electricity_bill_on_time'', ''dth_recharge_on_time'', ''internet_bill_on_time'',
      ''rent_payment_on_time'', ''online_bill_payments'', ''savings_rate'']"

definition int_columns :: "string list" where
  "int_columns =
     [''income_stability_months'', ''previous_loan_defaults'', ''upi_transactions_per_month'',
      ''age'', ''city_tier'']"

definition numeric_defaults :: "(string \<times> real) list" where
  "numeric_defaults =
     [(''monthly_income'', 25000), (''income_stability_months'', 6),
      (''emergency_savings'', 0), (''electricity_bill_on_time'', 80),
      (''dth_recharge_on_time'', 75), (''internet_bill_on_time'', 85),
      (''rent_payment_on_time'', 90), (''existing_loan_emi'', 0),
      (''credit_card_outstanding'', 0), (''previous_loan_defaults'', 0),
      (''upi_transactions_per_month'', 15), (''digital_wallet_usage'', 20),
      (''online_bill_payments'', 70), (''savings_rate'', 15), (''age'', 25),
      (''years_of_employment'', 1), (''city_tier'', 2)]"

definition numeric_columns :: "string list" where
  "numeric_columns = ''monthly_expenses'' # map fst numeric_defaults"

text \<open>The number the switch reads from the cell \<open>v\<close> of the numeric column \<open>k\<close>.\<close>

definition cell_number :: "string \<Rightarrow> string \<Rightarrow> jsnum" where
  "cell_number k v =
     (if k \<in> set percent_columns then parseFloat (remove1 CHR ''%'' v)
      else if k \<in> set int_columns then parseInt v
      else parseFloat v)"

text \<open>All numeric fields of a returned record: the columns and the derived fields.\<close>

definition numeric_fields :: "string list" where
  "numeric_fields =
     numeric_columns @
     [''overall_bill_payment_score'', ''loan_repayment_history_score'',
      ''digital_financial_activity_score'', ''expense_categories.essentials'',
      ''expense_categories.discretionary'', ''expense_categories.investments'']"

text \<open>The cells of the data rows of a CSV text.\<close>

definition csv_rows :: "string \<Rightarrow> string list list" where
  "csv_rows csvText = map row_values (tl (csv_lines csvText))"

text \<open>Every numeric property that is present holds a finite number.\<close>

definition all_finite :: "userObj \<Rightarrow> bool" where
  "all_finite u \<longleftrightarrow> (\<forall>k x. nums u k = Some x \<longrightarrow> isFinite x)"

text \<open>The numeric property \<open>k\<close> is present and finite.\<close>

definition fin_at :: "userObj \<Rightarrow> string \<Rightarrow> bool" where
  "fin_at u k \<longleftrightarrow> (\<exists>a. nums u k = Some (Fin a))"

text \<open>All numeric properties are finite and those named in \<open>ks\<close> are present.\<close>

definition fields_finite :: "string list \<Rightarrow> userObj \<Rightarrow> bool" where
  "fields_finite ks u \<longleftrightarrow> all_finite u \<and> (\<forall>k \<in> set ks. fin_at u k)"


subsection \<open>Sample texts\<close>

definition sample_header :: string where
  "sample_header =
     ''user_id,monthly_income,income_type,income_stability_months,emergency_savings,''
     @ ''electricity_bill_on_time,dth_recharge_on_time,internet_bill_on_time,''
     @ ''rent_payment_on_time,existing_loan_emi,previous_loan_defaults,''
     @ ''upi_transactions_per_month,digital_wallet_usage,online_bill_payments,''
     @ ''monthly_expenses,savings_rate,age,employment_type,years_of_employment,city_tier''"


text \<open>A row that ends after its second cell.\<close>

definition short_row_csv :: string where
  "short_row_csv = sample_header @ [CHR 0x0A] @ ''U002,30000''"





section \<open>Properties of the scoring engine\<close>

subsection \<open>Rounding and weighted sums\<close>

lemma round_nonneg: "0 \<le> (x::real) \<Longrightarrow> 0 \<le> round x"
  using round_mono[of 0 x] by simp

lemma round_le_numeral: "(x::real) \<le> numeral n \<Longrightarrow> round x \<le> numeral n"
  using round_mono[of x "numeral n"] by simp

lemma round_ge_numeral: "numeral n \<le> (x::real) \<Longrightarrow> numeral n \<le> round x"
  using round_mono[of "numeral n" x] by simp

lemma mix2:
  "0 \<le> a \<Longrightarrow> a \<le> 100 \<Longrightarrow> 0 \<le> b \<Longrightarrow> b \<le> 100
   \<Longrightarrow> 0 \<le> a * 0.7 + b * 0.3 \<and> a * 0.7 + b * 0.3 \<le> (100::real)"
  by simp

lemma mix4:
  "0 \<le> a \<Longrightarrow> a \<le> 100 \<Longrightarrow> 0 \<le> b \<Longrightarrow> b \<le> 100 \<Longrightarrow> 0 \<le> c \<Longrightarrow> c \<le> 100
   \<Longrightarrow> 0 \<le> d \<Longrightarrow> d \<le> 100
   \<Longrightarrow> 0 \<le> a * 0.40 + b * 0.25 + c * 0.20 + d * 0.15
     \<and> a * 0.40 + b * 0.25 + c * 0.20 + d * 0.15 \<le> (100::real)"
  by simp

lemma scale_300_900:
  "0 \<le> w \<Longrightarrow> w \<le> 100 \<Longrightarrow> 300 \<le> 300 + w * 6 \<and> 300 + w * 6 \<le> (900::real)"
  by simp

subsection \<open>The sample applicant\<close>

lemma valid_profile_sample_user: "valid_profile sample_user"
  by (simp add: valid_profile_def sample_user_def)

lemma sample_credit_score: "credit_score (calculateCreditScore sample_user) = 839"
  by (simp add: calculateCreditScore_def Let_def sample_user_def calculatePaymentHistoryScore_def
      calculateCreditUtilizationScore_def calculateIncomeStabilityScore_def
      calculateDigitalBehaviorScore_def round_def)

lemma sample_capacity:
  "monthly_income sample_user = 15000" "existing_loan_emi sample_user = 0"
  by (simp_all add: sample_user_def)

subsection \<open>Component scores\<close>

lemma paymentHistory_bounds:
  "0 \<le> calculatePaymentHistoryScore u \<and> calculatePaymentHistoryScore u \<le> 100"
  by (simp add: calculatePaymentHistoryScore_def Let_def)

lemma creditUtilization_bounds:
  assumes "valid_profile u"
  shows "0 \<le> calculateCreditUtilizationScore u \<and> calculateCreditUtilizationScore u \<le> 100"
proof -
  let ?d = "(existing_loan_emi u + credit_card_outstanding u * 0.05) / monthly_income u"
  let ?e = "monthly_expenses u / monthly_income u"
  from assms have d: "0 \<le> ?d" and e: "0 \<le> ?e"
    by (simp_all add: valid_profile_def)
  from d have d': "0 \<le> ?d * 200" by (rule mult_nonneg_nonneg) simp
  from e have e': "0 \<le> ?e * 100" by (rule mult_nonneg_nonneg) simp
  have 1: "0 \<le> max 0 (100 - ?d * 200)" "max 0 (100 - ?d * 200) \<le> 100"
    using d' by (simp_all only: max_def split: if_splits) linarith+
  have 2: "0 \<le> max 0 (100 - ?e * 100)" "max 0 (100 - ?e * 100) \<le> 100"
    using e' by (simp_all only: max_def split: if_splits) linarith+
  show ?thesis
    unfolding calculateCreditUtilizationScore_def Let_def using mix2[OF 1 2] .
qed

lemma incomeTypeScore_bounds: "40 \<le> incomeTypeScore t \<and> incomeTypeScore t \<le> 90"
  by (cases t) simp_all

lemma incomeStability_bounds:
  assumes "valid_profile u"
  shows "0 \<le> calculateIncomeStabilityScore u \<and> calculateIncomeStabilityScore u \<le> 100"
proof -
  from assms have "0 \<le> income_stability_months u" "0 \<le> years_of_employment u"
    "0 \<le> savings_rate u"
    by (simp_all add: valid_profile_def)
  moreover have "40 \<le> incomeTypeScore (income_type u)"
    using incomeTypeScore_bounds by simp
  ultimately show ?thesis
    by (simp add: calculateIncomeStabilityScore_def Let_def min_def)
qed

lemma digitalBehavior_bounds:
  assumes "valid_profile u"
  shows "0 \<le> calculateDigitalBehaviorScore u \<and> calculateDigitalBehaviorScore u \<le> 100"
proof -
  from assms have "0 \<le> upi_transactions_per_month u" "0 \<le> digital_wallet_usage u"
    "0 \<le> online_bill_payments u" "online_bill_payments u \<le> 100"
    "0 \<le> digital_financial_activity_score u" "digital_financial_activity_score u \<le> 100"
    by (simp_all add: valid_profile_def)
  then show ?thesis
    by (simp add: calculateDigitalBehaviorScore_def Let_def min_def)
qed

lemma defaultProbability_bounds:
  "1 \<le> calculateDefaultProbability cs u \<and> calculateDefaultProbability cs u \<le> 95"
  by (simp add: calculateDefaultProbability_def Let_def)

text \<open>
  Claim C5. For every valid profile, each of the four component sub-scores (payment
  history, credit utilization, income stability, digital behavior) lies in \<open>[0,100]\<close>,
  both as computed by its function and as reported in \<^verbatim>\<open>score_components\<close>.
\<close>

theorem component_scores_in_range:
  assumes "valid_profile u"
  shows "0 \<le> calculatePaymentHistoryScore u \<and> calculatePaymentHistoryScore u \<le> 100
       \<and> 0 \<le> calculateCreditUtilizationScore u \<and> calculateCreditUtilizationScore u \<le> 100
       \<and> 0 \<le> calculateIncomeStabilityScore u \<and> calculateIncomeStabilityScore u \<le> 100
       \<and> 0 \<le> calculateDigitalBehaviorScore u \<and> calculateDigitalBehaviorScore u \<le> 100
       \<and> score_components (calculateCreditScore u) =
           \<lparr>payment_history = calculatePaymentHistoryScore u,
            credit_utilization = calculateCreditUtilizationScore u,
            income_stability = calculateIncomeStabilityScore u,
            digital_behavior = calculateDigitalBehaviorScore u\<rparr>"
proof -
  have "score_components (calculateCreditScore u) =
           \<lparr>payment_history = calculatePaymentHistoryScore u,
            credit_utilization = calculateCreditUtilizationScore u,
            income_stability = calculateIncomeStabilityScore u,
            digital_behavior = calculateDigitalBehaviorScore u\<rparr>"
    by (simp add: calculateCreditScore_def Let_def)
  with paymentHistory_bounds[of u] creditUtilization_bounds[OF assms]
    incomeStability_bounds[OF assms] digitalBehavior_bounds[OF assms]
  show ?thesis by blast
qed

theorem component_scores_in_range_witness:
  "valid_profile sample_user
   \<and> 0 \<le> calculateDigitalBehaviorScore sample_user
   \<and> calculateDigitalBehaviorScore sample_user \<le> 100
   \<and> calculateDigitalBehaviorScore sample_user = 81"
proof -
  have "calculateDigitalBehaviorScore sample_user = 81"
    by (simp add: calculateDigitalBehaviorScore_def sample_user_def Let_def)
  with component_scores_in_range[OF valid_profile_sample_user] valid_profile_sample_user
  show ?thesis by simp
qed

subsection \<open>Composite score and default probability\<close>

text \<open>
  Claim C1. For every valid profile, the result of \<^verbatim>\<open>calculateCreditScore\<close> satisfies
  \<open>300 \<le> credit_score \<le> 900\<close> and \<open>1 \<le> default_probability \<le> 95\<close>.
\<close>

theorem credit_score_and_default_probability_bounds:
  assumes "valid_profile u"
  shows "300 \<le> credit_score (calculateCreditScore u)
       \<and> credit_score (calculateCreditScore u) \<le> 900
       \<and> 1 \<le> default_probability (calculateCreditScore u)
       \<and> default_probability (calculateCreditScore u) \<le> 95"
proof -
  let ?w = "calculatePaymentHistoryScore u * 0.40 + calculateCreditUtilizationScore u * 0.25
            + calculateIncomeStabilityScore u * 0.20 + calculateDigitalBehaviorScore u * 0.15"
  have w: "0 \<le> ?w \<and> ?w \<le> 100"
    using paymentHistory_bounds[of u] creditUtilization_bounds[OF assms]
      incomeStability_bounds[OF assms] digitalBehavior_bounds[OF assms]
    by (intro mix4) simp_all
  have cs: "credit_score (calculateCreditScore u) = round (300 + ?w * 6)"
    by (simp add: calculateCreditScore_def Let_def)
  have lo: "300 \<le> round (300 + ?w * 6)"
    by (rule round_ge_numeral) (use w scale_300_900[of ?w] in blast)
  have hi: "round (300 + ?w * 6) \<le> 900"
    by (rule round_le_numeral) (use w scale_300_900[of ?w] in blast)
  have dp: "default_probability (calculateCreditScore u)
            = calculateDefaultProbability (of_int (round (300 + ?w * 6))) u"
    by (simp add: calculateCreditScore_def Let_def)
  show ?thesis
    using lo hi defaultProbability_bounds unfolding cs dp by simp
qed

theorem credit_score_and_default_probability_bounds_witness:
  "valid_profile sample_user
   \<and> credit_score (calculateCreditScore sample_user) = 839
   \<and> 1 \<le> default_probability (calculateCreditScore sample_user)
   \<and> default_probability (calculateCreditScore sample_user) \<le> 95"
  using credit_score_and_default_probability_bounds[OF valid_profile_sample_user]
    valid_profile_sample_user sample_credit_score
  by simp

subsection \<open>Loan eligibility\<close>

lemma scaled_base_le: "b \<le> 125000 \<Longrightarrow> b * scoreMultiplier cs \<le> 125000"
  by (simp add: scoreMultiplier_def)

lemma scaled_base_nonneg: "0 \<le> b \<Longrightarrow> 0 \<le> b * scoreMultiplier cs"
  by (simp add: scoreMultiplier_def)

lemma max_amount_eq:
  "max_amount (calculateLoanEligibility u cs) =
     round (min 125000 (monthly_income u * 10) * scoreMultiplier cs)"
  by (simp add: calculateLoanEligibility_def Let_def)

lemma recommended_amount_eq:
  "recommended_amount (calculateLoanEligibility u cs)
     = round (real_of_int (max_amount (calculateLoanEligibility u cs)) * 0.7)"
  by (simp add: calculateLoanEligibility_def Let_def)

lemma emi_options_eq:
  "emi_options (calculateLoanEligibility u cs) =
     filter (\<lambda>option. of_int (emi option) \<le> monthly_income u * 0.4 - existing_loan_emi u)
       (map (emiOption (recommended_amount (calculateLoanEligibility u cs)) (getInterestRate cs))
          [12, 18, 24, 36])"
  by (simp add: calculateLoanEligibility_def Let_def)

lemma eligible_eq:
  "eligible (calculateLoanEligibility u cs) \<longleftrightarrow>
     max_amount (calculateLoanEligibility u cs) > 10000
     \<and> length (emi_options (calculateLoanEligibility u cs)) > 0"
  by (simp add: calculateLoanEligibility_def Let_def)

text \<open>
  Claim C3. For every profile and every credit score, the \<^verbatim>\<open>max_amount\<close> returned by
  \<^verbatim>\<open>calculateLoanEligibility\<close> is at most 125000.
\<close>

theorem max_amount_le_ceiling: "max_amount (calculateLoanEligibility u cs) \<le> 125000"
  unfolding max_amount_eq
  by (rule round_le_numeral, rule scaled_base_le) simp_all

lemma getInterestRate_nonneg: "0 \<le> getInterestRate cs"
  by (simp add: getInterestRate_def)

text \<open>The interest rate follows the score band: 18, 22, 24 or 26 percent.\<close>

lemma getInterestRate_bands:
  "(750 \<le> cs \<longrightarrow> getInterestRate cs = 18)
   \<and> (650 \<le> cs \<and> cs < 750 \<longrightarrow> getInterestRate cs = 22)
   \<and> (550 \<le> cs \<and> cs < 650 \<longrightarrow> getInterestRate cs = 24)
   \<and> (cs < 550 \<longrightarrow> getInterestRate cs = 26)
   \<and> getInterestRate cs \<le> 26
   \<and> range_min (interest_rate_range (calculateLoanEligibility u cs)) = getInterestRate cs"
  by (simp add: getInterestRate_def calculateLoanEligibility_def Let_def)

text \<open>
  Claim C4. The band rates are 18/22/24/26 and no rate of the eligibility result,
  \<^verbatim>\<open>interest_rate_range\<close> included, exceeds the cap of 26 percent. The code does not meet
  this: for a score below 550 (here 500) the assigned rate is the cap, 26, and the
  reported \<^verbatim>\<open>interest_rate_range.max\<close> is \<^verbatim>\<open>interestRate + 2\<close>, that is 28, whatever the
  profile.
\<close>

theorem interest_rate_range_above_cap:
  "getInterestRate 500 = 26
   \<and> range_max (interest_rate_range (calculateLoanEligibility u 500)) = 28"
  by (simp add: calculateLoanEligibility_def getInterestRate_def Let_def)

lemma emiOption_nonneg:
  assumes "0 \<le> P" "0 \<le> rate"
  shows "0 \<le> emi (emiOption P rate n)"
proof -
  let ?r = "rate / 100 / 12"
  have r: "0 \<le> ?r" using assms by simp
  then have q: "1 \<le> (1 + ?r) ^ n" by simp
  have "0 \<le> (of_int P * ?r * (1 + ?r) ^ n) / ((1 + ?r) ^ n - 1)"
    using assms r q by (intro divide_nonneg_nonneg mult_nonneg_nonneg) simp_all
  then show ?thesis
    by (simp add: emiOption_def Let_def round_nonneg)
qed

lemma max_amount_nonneg:
  assumes "0 \<le> monthly_income u"
  shows "0 \<le> max_amount (calculateLoanEligibility u cs)"
  unfolding max_amount_eq
  by (rule round_nonneg, rule scaled_base_nonneg) (use assms in simp_all)

lemma recommended_amount_nonneg:
  assumes "0 \<le> monthly_income u"
  shows "0 \<le> recommended_amount (calculateLoanEligibility u cs)"
  unfolding recommended_amount_eq
  using max_amount_nonneg[OF assms, of cs] by (intro round_nonneg) simp

text \<open>
  Claim C6. For every profile with \<open>0 < monthly_income \<le> existing_loan_emi\<close>,
  \<^verbatim>\<open>calculateLoanEligibility\<close> returns an empty \<^verbatim>\<open>emi_options\<close> list and
  \<^verbatim>\<open>eligible = false\<close>. The function is total: this is an ordinary return value.
\<close>

theorem no_capacity_no_options:
  assumes "0 < monthly_income u" "monthly_income u \<le> existing_loan_emi u"
  shows "emi_options (calculateLoanEligibility u cs) = []
       \<and> \<not> eligible (calculateLoanEligibility u cs)"
proof -
  have cap: "monthly_income u * 0.4 - existing_loan_emi u < 0"
    using assms by simp
  have P: "0 \<le> recommended_amount (calculateLoanEligibility u cs)"
    using assms(1) by (intro recommended_amount_nonneg) simp
  have "\<not> of_int (emi (emiOption (recommended_amount (calculateLoanEligibility u cs))
                 (getInterestRate cs) n)) \<le> monthly_income u * 0.4 - existing_loan_emi u" for n
    using emiOption_nonneg[OF P getInterestRate_nonneg, of cs n] cap by linarith
  then have "emi_options (calculateLoanEligibility u cs) = []"
    unfolding emi_options_eq by simp
  then show ?thesis by (simp add: eligible_eq)
qed

text \<open>The sample applicant with an instalment of 20000 on an income of 15000.\<close>

theorem no_capacity_no_options_witness:
  "0 < monthly_income (sample_user\<lparr>existing_loan_emi := 20000\<rparr>)
   \<and> monthly_income (sample_user\<lparr>existing_loan_emi := 20000\<rparr>)
       \<le> existing_loan_emi (sample_user\<lparr>existing_loan_emi := 20000\<rparr>)
   \<and> emi_options (calculateLoanEligibility (sample_user\<lparr>existing_loan_emi := 20000\<rparr>) 839) = []
   \<and> \<not> eligible (calculateLoanEligibility (sample_user\<lparr>existing_loan_emi := 20000\<rparr>) 839)"
proof -
  have h: "0 < monthly_income (sample_user\<lparr>existing_loan_emi := 20000\<rparr>)"
    "monthly_income (sample_user\<lparr>existing_loan_emi := 20000\<rparr>)
       \<le> existing_loan_emi (sample_user\<lparr>existing_loan_emi := 20000\<rparr>)"
    by (simp_all add: sample_user_def)
  from no_capacity_no_options[OF h, of 839] h show ?thesis by simp
qed

subsection \<open>Recommended instalment and tenure\<close>

lemma emi_sample_12: "emi (emiOption 87500 18 12) = 8022"
  by (simp add: emiOption_def Let_def round_def power_divide)

lemma emi_sample_18: "emi (emiOption 87500 18 18) = 5583"
  by (simp add: emiOption_def Let_def round_def power_divide)

lemma sample_recommended: "recommended_amount (calculateLoanEligibility sample_user 839) = 87500"
  by (simp add: recommended_amount_eq max_amount_eq scoreMultiplier_def sample_user_def round_def)

lemma sample_rate: "getInterestRate 839 = 18"
  by (simp add: getInterestRate_def)

text \<open>
  Claim C9. For every profile, \<^verbatim>\<open>optimal_tenure_months\<close> is 12, because
  \<^verbatim>\<open>tenure_options\<close> is always the unfiltered list \<open>[12,18,24,36]\<close>; and
  \<^verbatim>\<open>recommended_emi\<close> is the EMI of the shortest tenure whose EMI fits within the EMI
  capacity \<open>0.4 * monthly_income - existing_loan_emi\<close>, or 0 when no tenure fits. The EMI
  is computed on the recommended amount at the rate of the score band.
\<close>

theorem recommended_emi_and_tenure:
  "let r = calculateCreditScore u;
       cs = real_of_int (credit_score r);
       P = recommended_amount (calculateLoanEligibility u cs);
       cap = monthly_income u * 0.4 - existing_loan_emi u;
       fits = (\<lambda>t. real_of_int (emi (emiOption P (getInterestRate cs) t)) \<le> cap)
   in optimal_tenure_months r = 12
    \<and> tenure_options (calculateLoanEligibility u cs) = [12, 18, 24, 36]
    \<and> ((\<forall>t \<in> set [12, 18, 24, 36]. \<not> fits t) \<longrightarrow> recommended_emi r = 0)
    \<and> (\<forall>t \<in> set [12, 18, 24, 36].
          fits t \<and> (\<forall>t' \<in> set [12, 18, 24, 36]. t' < t \<longrightarrow> \<not> fits t')
          \<longrightarrow> recommended_emi r = emi (emiOption P (getInterestRate cs) t))"
proof -
  define cs where "cs = real_of_int (credit_score (calculateCreditScore u))"
  have t: "tenure_options (calculateLoanEligibility u cs) = [12, 18, 24, 36]"
    by (simp add: calculateLoanEligibility_def Let_def)
  have o: "optimal_tenure_months (calculateCreditScore u) = 12"
    by (simp add: calculateCreditScore_def Let_def firstTenureOr12_def calculateLoanEligibility_def)
  have e: "recommended_emi (calculateCreditScore u)
           = firstEmiOr0 (emi_options (calculateLoanEligibility u cs))"
    by (simp add: calculateCreditScore_def Let_def cs_def)
  show ?thesis
    unfolding Let_def cs_def[symmetric] e emi_options_eq
    using t o by (auto simp: firstEmiOr0_def)
qed

text \<open>
  For the sample applicant the capacity is 6000: the 12-month EMI of 8022 does not fit,
  the 18-month EMI of 5583 does.
\<close>

theorem recommended_emi_and_tenure_witness:
  "optimal_tenure_months (calculateCreditScore sample_user) = 12
   \<and> recommended_emi (calculateCreditScore sample_user) = 5583"
proof -
  from recommended_emi_and_tenure[of sample_user] show ?thesis
    unfolding Let_def sample_credit_score
    by (simp add: sample_recommended sample_rate sample_capacity emi_sample_12 emi_sample_18)
qed

section \<open>Properties of the compliance check\<close>

lemma show_nat_125000: "show_nat 125000 = ''125000''"
  by (simp add: digit_char_def show_nat.simps)

lemma fst_flag_if: "fst (flag_if c m d s) = fst s @ (if c then [m] else [])"
  by (simp add: flag_if_def)

lemma fst_adjust_if: "fst (adjust_if c d s) = fst s"
  by (simp add: adjust_if_def)

text \<open>The violations of one evaluation, rule by rule, in the order of the rules.\<close>

lemma violations_eq:
  "violations (checkCompliance profile requestedAmount proposedRate tenureMonths) =
    (if requestedAmount > 125000 then [''Loan amount exceeds RBI limit of Rs. 125000''] else [])
    @ (if RBIBorrowerProfile.existing_loan_amount profile + requestedAmount > 100000
       then [''Total indebtedness exceeds RBI limit of Rs. '' @ show_nat 100000] else [])
    @ (if RBIBorrowerProfile.monthly_income profile < 5000
       then [''Monthly income below minimum threshold of Rs. '' @ show_nat 5000] else [])
    @ (if proposedRate > 26
       then [''Interest rate exceeds RBI cap of '' @ show_nat 26 @ ''%''] else [])
    @ (if requestedAmount > 15000 \<and> tenureMonths < 24
       then [''Tenure below minimum '' @ show_nat 24 @ '' months for loans above Rs. 15,000'']
       else [])
    @ (let ratio = jmul (jdiv (calculateEMI requestedAmount proposedRate tenureMonths)
                           (Fin (RBIBorrowerProfile.monthly_income profile))) (Fin 100)
       in if jgt ratio (Fin 50)
          then [''EMI-to-income ratio ('' @ toFixed1 ratio @ ''%) exceeds 50%''] else [])
    @ (if \<not> collateral_free profile
       then [''RBI mandates collateral-free lending for microfinance''] else [])"
  unfolding checkCompliance_def Let_def
  by (simp add: fst_flag_if fst_adjust_if LOAN_LIMITS_def INTEREST_RATE_CAP_def
      MIN_TENURE_MONTHS_def show_nat_125000 if_distrib[of fst])

lemma isCompliant_eq:
  "isCompliant (checkCompliance profile requestedAmount proposedRate tenureMonths)
     \<longleftrightarrow> violations (checkCompliance profile requestedAmount proposedRate tenureMonths) = []"
  by (simp add: checkCompliance_def Let_def)

text \<open>
  Claim C2. For every borrower profile, proposed rate and tenure, \<^verbatim>\<open>checkCompliance\<close>
  with a requested amount above 125000 returns \<^verbatim>\<open>isCompliant = false\<close> and a violations
  list that contains the entry naming the ceiling of Rs. 125000; and \<^verbatim>\<open>isCompliant\<close> is
  true exactly when the violations list is empty.
\<close>

theorem amount_above_ceiling_not_compliant:
  "(isCompliant (checkCompliance profile requestedAmount proposedRate tenureMonths)
      \<longleftrightarrow> violations (checkCompliance profile requestedAmount proposedRate tenureMonths) = [])
   \<and> (requestedAmount > 125000 \<longrightarrow>
        \<not> isCompliant (checkCompliance profile requestedAmount proposedRate tenureMonths)
        \<and> ''Loan amount exceeds RBI limit of Rs. 125000''
            \<in> set (violations (checkCompliance profile requestedAmount proposedRate tenureMonths)))"
proof -
  have "''Loan amount exceeds RBI limit of Rs. 125000''
          \<in> set (violations (checkCompliance profile requestedAmount proposedRate tenureMonths))"
    if "requestedAmount > 125000"
    unfolding violations_eq using that by simp
  moreover from this
  have "violations (checkCompliance profile requestedAmount proposedRate tenureMonths) \<noteq> []"
    if "requestedAmount > 125000"
    using that by auto
  ultimately show ?thesis
    using isCompliant_eq by blast
qed

text \<open>The scenario of the specification: a request of 130000.\<close>

theorem amount_above_ceiling_not_compliant_witness:
  "(130000::real) > 125000
   \<and> \<not> isCompliant (checkCompliance sample_borrower 130000 24 24)
   \<and> ''Loan amount exceeds RBI limit of Rs. 125000''
       \<in> set (violations (checkCompliance sample_borrower 130000 24 24))"
  using amount_above_ceiling_not_compliant[of sample_borrower 130000 24 24] by auto

subsection \<open>The EMI formula\<close>

lemma calculateEMI_pos_rate:
  assumes "0 < rate" "0 < n"
  shows "calculateEMI P rate n =
           Fin (P * (rate / 1200) * (1 + rate / 1200) ^ n / ((1 + rate / 1200) ^ n - 1))"
proof -
  have "1 < 1 + rate / 1200" using assms by simp
  then have "1 < (1 + rate / 1200) ^ n" using assms(2) by (rule one_less_power)
  then show ?thesis by (simp add: calculateEMI_def Let_def)
qed

lemma calculateEMI_zero_tenure:
  assumes "0 < P" "0 < rate"
  shows "calculateEMI P rate 0 = PInf"
  using assms by (simp add: calculateEMI_def Let_def)

lemma annuity_factor_decreasing:
  fixes a b :: real
  assumes "0 < a" "a < b"
  shows "(b + 1) / b < (a + 1) / a"
  using assms by (simp add: field_simps)

text \<open>
  In the exact arithmetic of this model, the EMI \<open>P * r * (1 + r)^n / ((1 + r)^n - 1)\<close>
  with \<open>r = rate / 1200\<close> is strictly decreasing in the tenure for a positive principal
  and rate (at a tenure of zero it is \<^verbatim>\<open>Infinity\<close>). This is a fact about the formula.
  The program evaluates it in binary floating point, where \<open>(1 + r)^n - 1\<close> rounds to
  \<open>(1 + r)^n\<close> once the power reaches \<open>2\<^sup>5\<^sup>3\<close> and the computed EMIs of neighbouring
  tenures coincide (at a rate of 1200 the tenures 54 and 55 both give the principal);
  that rounding, and \<^verbatim>\<open>Math.pow\<close>, are outside the model, so the lemma says nothing
  about the computed values.
\<close>

lemma calculateEMI_exact_strictly_decreasing:
  assumes "0 < P" "0 < rate" "n1 < n2"
  shows "jgt (calculateEMI P rate n1) (calculateEMI P rate n2)"
proof -
  let ?q = "1 + rate / 1200"
  have q: "1 < ?q" using assms by simp
  have n2: "0 < n2" using assms by simp
  show ?thesis
  proof (cases "n1 = 0")
    case True
    then show ?thesis
      using assms calculateEMI_zero_tenure[of P rate] calculateEMI_pos_rate[OF assms(2) n2, of P]
      by (simp add: jgt_def)
  next
    case False
    then have n1: "0 < n1" by simp
    have a: "0 < ?q ^ n1 - 1" using one_less_power[OF q n1] by simp
    have ab: "?q ^ n1 - 1 < ?q ^ n2 - 1"
      using power_strict_increasing[OF assms(3) q] by simp
    have pr: "0 < P * (rate / 1200)" using assms by simp
    have "(?q ^ n2 - 1 + 1) / (?q ^ n2 - 1) < (?q ^ n1 - 1 + 1) / (?q ^ n1 - 1)"
      using a ab by (rule annuity_factor_decreasing)
    then have "?q ^ n2 / (?q ^ n2 - 1) < ?q ^ n1 / (?q ^ n1 - 1)" by simp
    then have "P * (rate / 1200) * (?q ^ n2 / (?q ^ n2 - 1))
                 < P * (rate / 1200) * (?q ^ n1 / (?q ^ n1 - 1))"
      using pr by (simp only: mult_less_cancel_left_pos)
    then show ?thesis
      by (simp add: calculateEMI_pos_rate[OF assms(2) n1] calculateEMI_pos_rate[OF assms(2) n2]
          jgt_def)
  qed
qed

text \<open>
  The eligibility calculator rounds the same formula: its EMI for a tenure is the
  rounded value of \<^verbatim>\<open>calculateEMI\<close>.
\<close>

lemma emiOption_rounds_calculateEMI:
  assumes "0 < rate" "0 < n"
  shows "calculateEMI (real_of_int P) rate n = Fin x \<Longrightarrow> emi (emiOption P rate n) = round x"
  using calculateEMI_pos_rate[OF assms, of "real_of_int P"]
  by (simp add: emiOption_def Let_def)

section \<open>Properties of the CSV ingestion\<close>

lemma split_char_nonempty: "split_char c s \<noteq> []"
  by (induction s) (auto split: list.splits)



lemma jor_finite: "x \<noteq> PInf \<Longrightarrow> x \<noteq> NInf \<Longrightarrow> isFinite (jor x (Fin d))"
  by (cases x) (simp_all add: jor_def truthy_def isFinite_def)

lemma nums_set_num: "nums (set_num k x u) k' = (if k' = k then Some x else nums u k')"
  by (simp add: set_num_def)

lemma nums_set_str: "nums (set_str k v u) = nums u"
  by (simp add: set_str_def)




lemma isFinite_iff: "isFinite x \<longleftrightarrow> (\<exists>a. x = Fin a)"
  by (cases x) (simp_all add: isFinite_def)

lemma all_finite_set_num: "all_finite u \<Longrightarrow> isFinite x \<Longrightarrow> all_finite (set_num k x u)"
  by (simp add: all_finite_def nums_set_num)

lemma all_finite_set_str: "all_finite (set_str k v u) = all_finite u"
  by (simp add: all_finite_def nums_set_str)

lemma getn_finite_or_NaN:
  assumes "all_finite u"
  shows "getn u k = NaN \<or> (\<exists>a. getn u k = Fin a)"
  using assms by (auto simp: getn_def all_finite_def isFinite_iff split: option.splits)

lemma expenses_default_finite:
  assumes "all_finite u"
  shows "isFinite (jmul (jor (getn u k) (Fin 25000)) (Fin c))"
  using getn_finite_or_NaN[OF assms, of k] by (auto simp: jor_def truthy_def isFinite_def)







lemma all_finite_set_num_iff: "all_finite u \<Longrightarrow> all_finite (set_num k x u) = isFinite x"
  by (auto simp: all_finite_def nums_set_num)

lemma isFinite_jor: "isFinite d \<Longrightarrow> isFinite (jor x d) = (x \<noteq> PInf \<and> x \<noteq> NInf)"
  by (cases x) (auto simp: jor_def truthy_def isFinite_def)

lemma isFinite_Fin: "isFinite (Fin a)"
  by (simp add: isFinite_def)

lemma switch_cases_finite:
  "\<forall>(h, f) \<in> set switch_cases. \<forall>v u u'.
     all_finite u \<longrightarrow>
     (h \<in> set numeric_columns \<longrightarrow> cell_number h v \<noteq> PInf \<and> cell_number h v \<noteq> NInf) \<longrightarrow>
     f (Some v) u = Inr u' \<longrightarrow> all_finite u'"
  unfolding switch_cases_def
  by (simp add: numeric_columns_def numeric_defaults_def cell_number_def percent_columns_def
      int_columns_def assign_float_def assign_int_def assign_percent_def toString_cell_def
      all_finite_set_num_iff all_finite_set_str isFinite_jor isFinite_Fin
      expenses_default_finite)

lemma switch_header_finite:
  assumes "all_finite u"
    and "h \<in> set numeric_columns \<longrightarrow> cell_number h v \<noteq> PInf \<and> cell_number h v \<noteq> NInf"
    and "switch_header h (Some v) u = Inr u'"
  shows "all_finite u'"
proof (cases "map_of switch_cases h")
  case None
  with assms show ?thesis by (simp add: switch_header_def)
next
  case (Some f)
  then have "(h, f) \<in> set switch_cases" by (rule map_of_SomeD)
  with switch_cases_finite have
    "all_finite u \<longrightarrow>
     (h \<in> set numeric_columns \<longrightarrow> cell_number h v \<noteq> PInf \<and> cell_number h v \<noteq> NInf) \<longrightarrow>
     f (Some v) u = Inr u' \<longrightarrow> all_finite u'"
    by fast
  with assms Some show ?thesis by (simp add: switch_header_def)
qed







lemma forEach_headers_finite:
  assumes "forEach_headers headers index values u = Inr u'" "all_finite u"
    and "index + length headers \<le> length values"
    and "\<forall>i < length headers. headers ! i \<in> set numeric_columns \<longrightarrow>
           cell_number (headers ! i) (values ! (index + i)) \<noteq> PInf
           \<and> cell_number (headers ! i) (values ! (index + i)) \<noteq> NInf"
  shows "all_finite u'"
  using assms
proof (induction headers arbitrary: index u)
  case Nil
  then show ?case by simp
next
  case (Cons h hs)
  from Cons.prems(3) have v: "nth_opt values index = Some (values ! index)"
    by (simp add: nth_opt_def)
  from Cons.prems(1) v obtain u1 where
    u1: "switch_header h (Some (values ! index)) u = Inr u1"
    and rest: "forEach_headers hs (Suc index) values u1 = Inr u'"
    by (auto split: sum.splits)
  from Cons.prems(4) have
    "h \<in> set numeric_columns \<longrightarrow>
       cell_number h (values ! index) \<noteq> PInf \<and> cell_number h (values ! index) \<noteq> NInf"
    by (auto dest: spec[of _ 0])
  from switch_header_finite[OF Cons.prems(2) this u1] have f1: "all_finite u1" .
  have "\<forall>i < length hs. hs ! i \<in> set numeric_columns \<longrightarrow>
           cell_number (hs ! i) (values ! (Suc index + i)) \<noteq> PInf
           \<and> cell_number (hs ! i) (values ! (Suc index + i)) \<noteq> NInf"
  proof (intro allI impI)
    fix i assume "i < length hs" "hs ! i \<in> set numeric_columns"
    with Cons.prems(4) show "cell_number (hs ! i) (values ! (Suc index + i)) \<noteq> PInf
           \<and> cell_number (hs ! i) (values ! (Suc index + i)) \<noteq> NInf"
      by (auto dest: spec[of _ "Suc i"])
  qed
  moreover from Cons.prems(3) have "Suc index + length hs \<le> length values" by simp
  ultimately show ?case using Cons.IH[OF rest f1] by blast
qed




lemma nums_set_string_defaults: "nums (set_string_defaults u) = nums u"
  by (simp add: set_string_defaults_def nums_set_str)



lemma safeParseFloat_finite:
  assumes "all_finite u" "isFinite d"
  shows "isFinite (safeParseFloat (nums u k) d)"
  using assms
  by (auto simp: safeParseFloat_def isNaN_def all_finite_def Let_def split: option.splits)

lemma safeParseInt_finite:
  assumes "isFinite d"
  shows "isFinite (safeParseInt v d)"
  using assms
  by (auto simp: safeParseInt_def isNaN_def Let_def isFinite_def split: option.splits jsnum.splits)

lemma fin_at_iff: "fin_at u k \<longleftrightarrow> (\<exists>x. nums u k = Some x \<and> isFinite x)"
  by (auto simp: fin_at_def isFinite_iff)

lemma fields_finite_set_num:
  assumes "fields_finite ks u" "isFinite x"
  shows "fields_finite (k # ks) (set_num k x u)"
  using assms
  by (auto simp: fields_finite_def all_finite_set_num_iff fin_at_iff nums_set_num)

lemma fields_finite_revalidate_float:
  assumes "fields_finite ks u" "isFinite d"
  shows "fields_finite (k # ks) (revalidate_float k d u)"
  unfolding revalidate_float_def
  using assms safeParseFloat_finite[of u d k]
  by (intro fields_finite_set_num) (simp_all add: fields_finite_def)

lemma fields_finite_revalidate_int:
  assumes "fields_finite ks u" "isFinite d"
  shows "fields_finite (k # ks) (revalidate_int k d u)"
  unfolding revalidate_int_def
  using assms safeParseInt_finite[of d "nums u k"]
  by (intro fields_finite_set_num) simp_all

lemma getn_fin_at: "fin_at u k \<Longrightarrow> \<exists>a. getn u k = Fin a"
  by (auto simp: fin_at_def getn_def)

lemma fields_finite_getn:
  assumes "fields_finite ks u" "k \<in> set ks"
  shows "\<exists>a. getn u k = Fin a"
  using assms by (auto simp: fields_finite_def intro: getn_fin_at)

lemma fields_finite_validate_monthly_expenses:
  assumes "fields_finite ks u" "''monthly_income'' \<in> set ks"
  shows "fields_finite (''monthly_expenses'' # ks) (validate_monthly_expenses u)"
proof -
  from fields_finite_getn[OF assms] obtain a where "getn u ''monthly_income'' = Fin a" ..
  then have "isFinite (jmul (getn u ''monthly_income'') (Fin 0.6))"
    by (simp add: isFinite_def)
  with assms(1) show ?thesis
    unfolding validate_monthly_expenses_def by (rule fields_finite_revalidate_float)
qed

lemma fields_finite_set_string_defaults:
  assumes "fields_finite ks u"
  shows "fields_finite ks (set_string_defaults u)"
  using assms
  by (simp add: fields_finite_def all_finite_def fin_at_def nums_set_string_defaults)

lemma fields_finite_overall:
  assumes "fields_finite ks u"
    and "''electricity_bill_on_time'' \<in> set ks" "''dth_recharge_on_time'' \<in> set ks"
    and "''internet_bill_on_time'' \<in> set ks" "''rent_payment_on_time'' \<in> set ks"
  shows "fields_finite (''overall_bill_payment_score'' # ks) (set_overall_bill_payment_score u)"
proof -
  from fields_finite_getn[OF assms(1)] assms(2-5) obtain a b c d where
    "getn u ''electricity_bill_on_time'' = Fin a" "getn u ''dth_recharge_on_time'' = Fin b"
    "getn u ''internet_bill_on_time'' = Fin c" "getn u ''rent_payment_on_time'' = Fin d"
    by metis
  then show ?thesis
    unfolding set_overall_bill_payment_score_def
    by (intro fields_finite_set_num assms(1)) (simp add: isFinite_def)
qed

lemma fields_finite_loan_repayment:
  assumes "fields_finite ks u" "''previous_loan_defaults'' \<in> set ks"
  shows "fields_finite (''loan_repayment_history_score'' # ks)
           (set_loan_repayment_history_score u)"
proof -
  from fields_finite_getn[OF assms] obtain a where "getn u ''previous_loan_defaults'' = Fin a" ..
  then show ?thesis
    unfolding set_loan_repayment_history_score_def
    by (intro fields_finite_set_num assms(1)) (simp add: isFinite_def jmax_def jsub_def)
qed

lemma fields_finite_digital:
  assumes "fields_finite ks u"
    and "''upi_transactions_per_month'' \<in> set ks" "''digital_wallet_usage'' \<in> set ks"
    and "''online_bill_payments'' \<in> set ks"
  shows "fields_finite (''digital_financial_activity_score'' # ks)
           (set_digital_financial_activity_score u)"
proof -
  from fields_finite_getn[OF assms(1)] assms(2-4) obtain a b c where
    "getn u ''upi_transactions_per_month'' = Fin a" "getn u ''digital_wallet_usage'' = Fin b"
    "getn u ''online_bill_payments'' = Fin c"
    by metis
  then show ?thesis
    unfolding set_digital_financial_activity_score_def
    by (intro fields_finite_set_num assms(1)) (simp add: isFinite_def jmin_def)
qed

lemma fields_finite_expense_categories:
  assumes "fields_finite ks u" "''monthly_expenses'' \<in> set ks"
  shows "fields_finite (''expense_categories.investments'' # ''expense_categories.discretionary''
            # ''expense_categories.essentials'' # ks) (set_expense_categories u)"
proof -
  from fields_finite_getn[OF assms] obtain a where "getn u ''monthly_expenses'' = Fin a" ..
  then show ?thesis
    unfolding set_expense_categories_def
    by (intro fields_finite_set_num assms(1)) (simp_all add: isFinite_def)
qed

lemma fields_finite_validate_numeric_fields:
  assumes "all_finite u"
  shows "fields_finite
           [''city_tier'', ''income_stability_months'', ''age'', ''upi_transactions_per_month'',
            ''previous_loan_defaults'', ''savings_rate'', ''online_bill_payments'',
            ''rent_payment_on_time'', ''internet_bill_on_time'', ''dth_recharge_on_time'',
            ''electricity_bill_on_time'', ''years_of_employment'', ''digital_wallet_usage'',
            ''credit_card_outstanding'', ''existing_loan_emi'', ''emergency_savings'',
            ''monthly_expenses'', ''monthly_income'']
           (validate_numeric_fields u)"
proof -
  have 0: "fields_finite [] u" using assms by (simp add: fields_finite_def)
  show ?thesis
    unfolding validate_numeric_fields_def o_apply
    by (intro fields_finite_revalidate_int fields_finite_revalidate_float
        fields_finite_validate_monthly_expenses 0 isFinite_Fin) simp
qed

lemma finish_row_finite:
  assumes "all_finite u"
  shows "\<forall>k \<in> set numeric_fields. fin_at (finish_row u) k"
proof -
  note v = fields_finite_validate_numeric_fields[OF assms]
  have "fields_finite
          (''expense_categories.investments'' # ''expense_categories.discretionary''
           # ''expense_categories.essentials'' # ''digital_financial_activity_score''
           # ''loan_repayment_history_score'' # ''overall_bill_payment_score''
           # [''city_tier'', ''income_stability_months'', ''age'', ''upi_transactions_per_month'',
            ''previous_loan_defaults'', ''savings_rate'', ''online_bill_payments'',
            ''rent_payment_on_time'', ''internet_bill_on_time'', ''dth_recharge_on_time'',
            ''electricity_bill_on_time'', ''years_of_employment'', ''digital_wallet_usage'',
            ''credit_card_outstanding'', ''existing_loan_emi'', ''emergency_savings'',
            ''monthly_expenses'', ''monthly_income''])
          (finish_row u)"
    unfolding finish_row_def o_apply
    by (intro fields_finite_expense_categories fields_finite_digital
        fields_finite_loan_repayment fields_finite_overall fields_finite_set_string_defaults v)
      simp_all
  then show ?thesis
    by (simp add: fields_finite_def numeric_fields_def numeric_columns_def numeric_defaults_def)
qed









lemma all_finite_empty_obj: "all_finite empty_obj"
  by (simp add: all_finite_def empty_obj_def)


lemma parseRow_finite:
  assumes "parseRow headers line = Inr u"
    and "length headers \<le> length (row_values line)"
    and "\<forall>i < length headers. headers ! i \<in> set numeric_columns \<longrightarrow>
           cell_number (headers ! i) (row_values line ! i) \<noteq> PInf
           \<and> cell_number (headers ! i) (row_values line ! i) \<noteq> NInf"
  shows "\<forall>k \<in> set numeric_fields. fin_at u k"
proof -
  from assms(1) obtain u0 where
    u0: "forEach_headers headers 0 (row_values line) empty_obj = Inr u0"
    and u: "u = finish_row u0"
    by (auto simp: parseRow_def split: sum.splits)
  from forEach_headers_finite[OF u0 all_finite_empty_obj] assms(2,3)
  have "all_finite u0" by simp
  from finish_row_finite[OF this] u show ?thesis by simp
qed














lemma csv_rows_short: "csv_rows short_row_csv = [ [''U002'', ''30000''] ]"
  by code_simp


















lemma zip_index_form:
  assumes "\<forall>(h, v) \<in> set (zip hs vs). P h v" "length hs \<le> length vs"
  shows "\<forall>i < length hs. P (hs ! i) (vs ! i)"
proof (intro allI impI)
  fix i assume "i < length hs"
  with assms(2) have "(hs ! i, vs ! i) \<in> set (zip hs vs)"
    by (auto simp: set_zip)
  with assms(1) show "P (hs ! i) (vs ! i)" by blast
qed








































end
